theory Spec2Isabelle
  imports Complex_Main
begin

section \<open>Numbers\<close>

text \<open>
  The analytics code computes on JavaScript numbers. They are modelled as exact reals:
  rounding of the binary floating point format is not represented. The one place where
  the code can divide by zero without a guard, \<open>detectLatencyTrend\<close>, is modelled with
  the special values that JavaScript produces there.
\<close>

datatype jsnum = Num real | PosInfinity | NegInfinity | NaN

definition js_div :: "real \<Rightarrow> real \<Rightarrow> jsnum" where
  \<comment> \<open>\<open>a / b\<close> on numbers: a zero divisor gives an infinity or NaN, never an exception.\<close>
  "js_div a b =
     (if b \<noteq> 0 then Num (a / b)
      else if a > 0 then PosInfinity
      else if a < 0 then NegInfinity
      else NaN)"

fun js_times :: "jsnum \<Rightarrow> real \<Rightarrow> jsnum" where
  \<comment> \<open>\<open>x * c\<close> for a positive finite constant \<open>c\<close>.\<close>
  "js_times (Num x) c = Num (x * c)"
| "js_times PosInfinity c = PosInfinity"
| "js_times NegInfinity c = NegInfinity"
| "js_times NaN c = NaN"

fun js_less :: "jsnum \<Rightarrow> real \<Rightarrow> bool" where
  "js_less (Num x) c = (x < c)"
| "js_less PosInfinity c = False"
| "js_less NegInfinity c = True"
| "js_less NaN c = False"

fun js_greater :: "jsnum \<Rightarrow> real \<Rightarrow> bool" where
  "js_greater (Num x) c = (x > c)"
| "js_greater PosInfinity c = True"
| "js_greater NegInfinity c = False"
| "js_greater NaN c = False"

definition Math_round :: "real \<Rightarrow> real" where
  \<comment> \<open>\<open>Math.round\<close>: to the nearest integer, a half rounds up.\<close>
  "Math_round x = of_int \<lfloor>x + 1 / 2\<rfloor>"

definition reduce_add :: "real list \<Rightarrow> real" where
  \<comment> \<open>\<open>xs.reduce((a, b) => a + b, 0)\<close>\<close>
  "reduce_add xs = foldl (+) 0 xs"

definition sort_numeric :: "real list \<Rightarrow> real list" where
  \<comment> \<open>\<open>[...xs].sort((a, b) => a - b)\<close>\<close>
  "sort_numeric xs = sort xs"

section \<open>networkIntelligence.ts\<close>

datatype network_type = WiFi | Mobile | Unknown

datatype latency_trend = Improving | Stable | Degrading

record NetworkAnalysis =
  networkType :: network_type
  networkQuality :: real
  connectionStability :: real
  latencyTrend :: latency_trend
  packetLossIndicator :: real
  connectionReliability :: real

definition calculateVariance :: "real list \<Rightarrow> real" where
  "calculateVariance values =
     (if length values = 0 then 0
      else
        let mean = reduce_add values / real (length values);
            squaredDiffs = map (\<lambda>v. (v - mean) ^ 2) values
        in reduce_add squaredDiffs / real (length values))"

definition detectNetworkType :: "real list \<Rightarrow> network_type" where
  "detectNetworkType rttHistory =
     (if length rttHistory < 10 then Unknown
      else
        let sorted = sort_numeric rttHistory;
            median = sorted ! nat \<lfloor>real (length sorted) / 2\<rfloor>;
            q1 = sorted ! nat \<lfloor>real (length sorted) * 0.25\<rfloor>;
            q3 = sorted ! nat \<lfloor>real (length sorted) * 0.75\<rfloor>;
            iqr = q3 - q1;
            variance = calculateVariance rttHistory;
            isLikelyWiFi = (median < 500 \<and> variance < 50000 \<and> iqr < 200);
            isLikelyMobile = (median > 800 \<or> variance > 100000 \<or> iqr > 400)
        in if isLikelyWiFi then WiFi
           else if isLikelyMobile then Mobile
           else Unknown)"

definition calculateNetworkQuality :: "real list \<Rightarrow> real" where
  "calculateNetworkQuality rttHistory =
     (if length rttHistory < 5 then 50
      else
        let mean = reduce_add rttHistory / real (length rttHistory);
            variance = calculateVariance rttHistory;
            stdDev = sqrt variance;
            latencyScore = max 0 (min 100 (100 - ((mean - 100) / 19)));
            stabilityScore = max 0 (min 100 (100 - ((stdDev - 50) / 4.5)))
        in Math_round ((latencyScore * 0.6) + (stabilityScore * 0.4)))"

definition calculateConnectionStability :: "real list \<Rightarrow> real" where
  "calculateConnectionStability rttHistory =
     (if length rttHistory < 10 then 50
      else
        let mean = reduce_add rttHistory / real (length rttHistory);
            stdDev = sqrt (calculateVariance rttHistory);
            cv = (if mean > 0 then (stdDev / mean) * 100 else 0)
        in max 0 (min 100 (100 - ((cv - 10) * 2.5))))"

definition detectLatencyTrend :: "real list \<Rightarrow> latency_trend" where
  "detectLatencyTrend rttHistory =
     (if length rttHistory < 20 then Stable
      else
        let mid = length rttHistory div 2;
            firstHalf = take mid rttHistory;
            secondHalf = drop mid rttHistory;
            firstAvg = reduce_add firstHalf / real (length firstHalf);
            secondAvg = reduce_add secondHalf / real (length secondHalf);
            change = js_times (js_div (secondAvg - firstAvg) firstAvg) 100
        in if js_less change (- 10) then Improving
           else if js_greater change 10 then Degrading
           else Stable)"

definition defaultTimeoutThreshold :: real where
  "defaultTimeoutThreshold = 10000"

definition calculatePacketLossIndicator :: "real list \<Rightarrow> real \<Rightarrow> real" where
  "calculatePacketLossIndicator rttHistory timeoutThreshold =
     (if length rttHistory < 5 then 0
      else
        let sorted = sort_numeric rttHistory;
            q3 = sorted ! nat \<lfloor>real (length sorted) * 0.75\<rfloor>;
            iqr = q3 - sorted ! nat \<lfloor>real (length sorted) * 0.25\<rfloor>;
            upperBound = q3 + (1.5 * iqr);
            outliers = filter (\<lambda>rtt. rtt > upperBound \<or> rtt > timeoutThreshold * 0.8) rttHistory;
            outlierRate = (real (length outliers) / real (length rttHistory)) * 100
        in min 100 (Math_round (outlierRate * 10)))"

definition calculateConnectionReliability :: "real list \<Rightarrow> real \<Rightarrow> real \<Rightarrow> real" where
  "calculateConnectionReliability rttHistory totalProbes timeoutThreshold =
     (if totalProbes = 0 then 0
      else
        let successfulProbes = length (filter (\<lambda>rtt. rtt < timeoutThreshold) rttHistory);
            successRate = (real successfulProbes / totalProbes) * 100;
            stability = calculateConnectionStability rttHistory
        in Math_round ((successRate * 0.7) + (stability * 0.3)))"

definition analyzeNetwork :: "real list \<Rightarrow> real \<Rightarrow> NetworkAnalysis" where
  "analyzeNetwork rttHistory totalProbes =
     \<lparr> networkType = detectNetworkType rttHistory,
       networkQuality = calculateNetworkQuality rttHistory,
       connectionStability = calculateConnectionStability rttHistory,
       latencyTrend = detectLatencyTrend rttHistory,
       packetLossIndicator = calculatePacketLossIndicator rttHistory defaultTimeoutThreshold,
       connectionReliability =
         calculateConnectionReliability rttHistory totalProbes defaultTimeoutThreshold \<rparr>"

section \<open>models.ts\<close>

datatype presence_state = Online | Standby | OFFLINE | Calibrating

record StateTransition =
  row_id :: "nat option"
  sessionId :: string
  jid :: string
  deviceJid :: string
  fromState :: string
  toState :: string
  timestamp :: int
  duration :: "real option"

record RTTMeasurement =
  row_id :: "nat option"
  sessionId :: string
  jid :: string
  deviceJid :: string
  rtt :: real
  timestamp :: int
  state :: presence_state
  networkType :: "network_type option"
  networkQuality :: "real option"
  avgRtt :: "real option"
  medianRtt :: "real option"
  threshold :: "real option"

section \<open>Library functions used by analytics.ts\<close>

subsection \<open>Map and Set objects\<close>

text \<open>
  A JavaScript \<open>Map\<close> keeps its entries in the order in which the keys were first set,
  and a \<open>Set\<close> its elements in the order in which they were first added. A map is an
  association list with distinct keys, a set a list with distinct elements.
\<close>

fun map_set :: "'k \<Rightarrow> 'v \<Rightarrow> ('k \<times> 'v) list \<Rightarrow> ('k \<times> 'v) list" where
  "map_set k v [] = [(k, v)]"
| "map_set k v ((k', v') # m) = (if k' = k then (k, v) # m else (k', v') # map_set k v m)"

definition map_push :: "'k \<Rightarrow> 'v \<Rightarrow> ('k \<times> 'v list) list \<Rightarrow> ('k \<times> 'v list) list" where
  \<comment> \<open>\<open>if (!m.has(k)) m.set(k, []); m.get(k).push(v)\<close>\<close>
  "map_push k v m = map_set k ((case map_of m k of None \<Rightarrow> [] | Some vs \<Rightarrow> vs) @ [v]) m"

definition set_add :: "'a \<Rightarrow> 'a list \<Rightarrow> 'a list" where
  "set_add x s = (if x \<in> set s then s else s @ [x])"

definition map_add_to_set :: "'k \<Rightarrow> 'a \<Rightarrow> ('k \<times> 'a list) list \<Rightarrow> ('k \<times> 'a list) list" where
  \<comment> \<open>\<open>if (!m.has(k)) m.set(k, new Set()); m.get(k).add(x)\<close>\<close>
  "map_add_to_set k x m = map_set k (set_add x (case map_of m k of None \<Rightarrow> [] | Some s \<Rightarrow> s)) m"

definition map_increment :: "'k \<Rightarrow> ('k \<times> nat) list \<Rightarrow> ('k \<times> nat) list" where
  \<comment> \<open>\<open>m.set(k, (m.get(k) || 0) + 1)\<close>\<close>
  "map_increment k m = map_set k ((case map_of m k of None \<Rightarrow> 0 | Some c \<Rightarrow> c) + 1) m"

subsection \<open>date-fns\<close>

text \<open>
  The package date-fns is imported by analytics.ts and is not part of the repository.
  \<open>getHours\<close> and \<open>getDay\<close> read the hour of the day and the day of the week of an
  instant in the local time zone of the process. The zone is a parameter \<open>tz\<close>: the
  offset of local time from UTC, in milliseconds, at a given instant. The epoch
  (instant 0) was a Thursday, day 4.
\<close>

definition getHours :: "(int \<Rightarrow> int) \<Rightarrow> int \<Rightarrow> nat" where
  "getHours tz t = nat (((t + tz t) div 3600000) mod 24)"

definition getDay :: "(int \<Rightarrow> int) \<Rightarrow> int \<Rightarrow> nat" where
  "getDay tz t = nat ((((t + tz t) div 86400000) + 4) mod 7)"

definition differenceInMinutes :: "int \<Rightarrow> int \<Rightarrow> int" where
  \<comment> \<open>The number of full minutes from the second instant to the first, truncated towards zero.\<close>
  "differenceInMinutes dateLeft dateRight =
     (let diff = dateLeft - dateRight
      in if diff \<ge> 0 then diff div 60000 else - ((- diff) div 60000))"

subsection \<open>simple-statistics\<close>

text \<open>
  The statistics come from the package simple-statistics, which analytics.ts imports and
  which is not part of the repository; the functions below follow the package's
  documented behaviour. They raise an error on an empty array. Every call in analytics.ts
  stands behind a length check, which the model keeps, so that the functions below are
  only applied to non-empty lists.

  \<open>quantile\<close> is the package's population quantile: with \<open>idx = length * p\<close>, the
  element at \<open>ceil(idx) - 1\<close> of the sorted sample when \<open>idx\<close> is not an integer; the
  mean of the elements at \<open>idx - 1\<close> and \<open>idx\<close> when it is and the length is even; the
  element at \<open>idx\<close> otherwise. \<open>median\<close> is the quantile at \<open>0.5\<close>.
\<close>

definition stats_min :: "real list \<Rightarrow> real" where
  "stats_min x = foldl (\<lambda>value xi. if xi < value then xi else value) (hd x) (tl x)"

definition stats_max :: "real list \<Rightarrow> real" where
  "stats_max x = foldl (\<lambda>value xi. if xi > value then xi else value) (hd x) (tl x)"

definition stats_mean :: "real list \<Rightarrow> real" where
  "stats_mean x = sum_list x / real (length x)"

definition stats_variance :: "real list \<Rightarrow> real" where
  "stats_variance x = sum_list (map (\<lambda>xi. (xi - stats_mean x) ^ 2) x) / real (length x)"

definition stats_standardDeviation :: "real list \<Rightarrow> real" where
  "stats_standardDeviation x = (if length x = 1 then 0 else sqrt (stats_variance x))"

definition stats_quantile :: "real list \<Rightarrow> real \<Rightarrow> real" where
  "stats_quantile x p =
     (let sorted = sort x;
          len = length x;
          idx = real len * p
      in if p = 1 then sorted ! (len - 1)
         else if p = 0 then sorted ! 0
         else if idx \<noteq> of_int \<lfloor>idx\<rfloor> then sorted ! (nat \<lceil>idx\<rceil> - 1)
         else if len mod 2 = 0 then (sorted ! (nat \<lfloor>idx\<rfloor> - 1) + sorted ! nat \<lfloor>idx\<rfloor>) / 2
         else sorted ! nat \<lfloor>idx\<rfloor>)"

definition stats_median :: "real list \<Rightarrow> real" where
  "stats_median x = stats_quantile x 0.5"

section \<open>analytics.ts\<close>

record ActivityPattern =
  hour :: nat
  day :: nat
  activityLevel :: real
  avgRTT :: real
  measurementCount :: nat

record DailyPattern =
  hour :: nat
  avgActivity :: nat
  avgRTT :: real
  onlinePercentage :: real

record WeeklyPattern =
  day :: nat
  avgActivity :: nat
  avgRTT :: real
  onlinePercentage :: real

record ActivityPatterns =
  daily :: "DailyPattern list"
  weekly :: "WeeklyPattern list"
  heatmap :: "ActivityPattern list"

record RttDistribution =
  min_rtt :: real
  max_rtt :: real
  mean :: real
  median :: real
  stdDev :: real
  q1 :: real
  q3 :: real
  iqr :: real

record StateDurations =
  online :: real
  standby :: real
  offline :: real

record TransitionFrequency =
  total :: nat
  onlineToStandby :: nat
  standbyToOnline :: nat
  toOffline :: nat
  fromOffline :: nat

record NetworkQualityRollup =
  avgQuality :: real
  avgStability :: real
  avgReliability :: real

record StatisticalAnalysis =
  rttDistribution :: RttDistribution
  stateDurations :: StateDurations
  transitionFrequency :: TransitionFrequency
  networkQuality :: NetworkQualityRollup

record PeakActivity =
  hour :: nat
  activity :: nat

record SleepWakeDetection =
  typicalWakeTime :: "nat option"
  typicalSleepTime :: "nat option"
  sleepPatternDetected :: bool

record DeviceUsagePattern =
  deviceJid :: string
  usagePercentage :: real
  avgRTT :: real

record MultiDeviceCoordination =
  simultaneousDevices :: nat
  avgSimultaneousDevices :: real
  coordinationScore :: real

record ResponseTimePatterns =
  avgResponseTime :: real
  fastestResponseTime :: real
  slowestResponseTime :: real
  responseTimeConsistency :: real

record BehavioralInsights =
  averageSessionLength :: int
  peakActivityTimes :: "PeakActivity list"
  sleepWakeDetection :: SleepWakeDetection
  timezoneInference :: "string option"
  deviceUsagePatterns :: "DeviceUsagePattern list"
  multiDeviceCoordination :: MultiDeviceCoordination
  responseTimePatterns :: ResponseTimePatterns

subsection \<open>analyzeActivityPatterns\<close>

definition group_by :: "('a \<Rightarrow> 'k) \<Rightarrow> 'a list \<Rightarrow> ('k \<times> 'a list) list" where
  \<comment> \<open>A \<open>forEach\<close> that files every element under its key, in a fresh map.\<close>
  "group_by key xs = foldl (\<lambda>m x. map_push (key x) x m) [] xs"

definition map_get_or_empty :: "('k \<times> 'a list) list \<Rightarrow> 'k \<Rightarrow> 'a list" where
  \<comment> \<open>\<open>m.get(k) || []\<close>\<close>
  "map_get_or_empty m k = (case map_of m k of None \<Rightarrow> [] | Some vs \<Rightarrow> vs)"

definition sum_rtt :: "RTTMeasurement list \<Rightarrow> real" where
  \<comment> \<open>\<open>data.reduce((sum, m) => sum + m.rtt, 0)\<close>\<close>
  "sum_rtt data = foldl (\<lambda>sum m. sum + rtt m) 0 data"

definition count_online :: "RTTMeasurement list \<Rightarrow> nat" where
  \<comment> \<open>\<open>data.filter(m => m.state === 'Online').length\<close>\<close>
  "count_online data = length (filter (\<lambda>m. state m = Online) data)"

definition analyzeActivityPatterns :: "(int \<Rightarrow> int) \<Rightarrow> RTTMeasurement list \<Rightarrow> ActivityPatterns" where
  \<comment> \<open>The single loop of the source fills three independent maps; each is a \<open>group_by\<close>.
      The heatmap key, the text \<open>day-hour\<close> that the source splits again, is the pair.\<close>
  "analyzeActivityPatterns tz measurements =
     (if length measurements = 0 then \<lparr> daily = [], weekly = [], heatmap = [] \<rparr>
      else
        let hourMap = group_by (\<lambda>m. getHours tz (timestamp m)) measurements;
            dayMap = group_by (\<lambda>m. getDay tz (timestamp m)) measurements;
            heatmapData =
              group_by (\<lambda>m. (getDay tz (timestamp m), getHours tz (timestamp m))) measurements;
            daily = map (\<lambda>hour.
                let hourData = map_get_or_empty hourMap hour;
                    onlineCount = count_online hourData;
                    avgRTT = (if length hourData > 0
                              then sum_rtt hourData / real (length hourData) else 0)
                in \<lparr> DailyPattern.hour = hour,
                     avgActivity = length hourData,
                     avgRTT = avgRTT,
                     onlinePercentage =
                       (if length hourData > 0
                        then (real onlineCount / real (length hourData)) * 100 else 0) \<rparr>)
              [0..<24];
            weekly = map (\<lambda>day.
                let dayData = map_get_or_empty dayMap day;
                    onlineCount = count_online dayData;
                    avgRTT = (if length dayData > 0
                              then sum_rtt dayData / real (length dayData) else 0)
                in \<lparr> WeeklyPattern.day = day,
                     avgActivity = length dayData,
                     avgRTT = avgRTT,
                     onlinePercentage =
                       (if length dayData > 0
                        then (real onlineCount / real (length dayData)) * 100 else 0) \<rparr>)
              [0..<7];
            heatmap = map (\<lambda>(key, data).
                let day = fst key;
                    hour = snd key;
                    onlineCount = count_online data;
                    activityLevel = (real onlineCount / real (length data)) * 100;
                    avgRTT = sum_rtt data / real (length data)
                in \<lparr> ActivityPattern.hour = hour,
                     day = day,
                     activityLevel = activityLevel,
                     avgRTT = avgRTT,
                     measurementCount = length data \<rparr>)
              heatmapData
        in \<lparr> daily = daily, weekly = weekly, heatmap = heatmap \<rparr>)"

subsection \<open>performStatisticalAnalysis\<close>

definition add_duration :: "StateDurations \<Rightarrow> StateTransition \<Rightarrow> StateDurations" where
  \<comment> \<open>The body of the inner loop; \<open>if (t.duration)\<close> holds for a duration that is present
      and not zero.\<close>
  "add_duration durations t =
     (case duration t of
        None \<Rightarrow> durations
      | Some d \<Rightarrow>
          if d = 0 then durations
          else
            let minutes = d / (60 * 1000)
            in if fromState t = ''Online''
               then durations\<lparr> online := online durations + minutes \<rparr>
               else if fromState t = ''Standby''
               then durations\<lparr> standby := standby durations + minutes \<rparr>
               else if fromState t = ''OFFLINE''
               then durations\<lparr> offline := offline durations + minutes \<rparr>
               else durations)"

definition calculateStateDurations ::
  "RTTMeasurement list \<Rightarrow> StateTransition list \<Rightarrow> StateDurations" where
  "calculateStateDurations measurements transitions =
     (let deviceTransitions = group_by StateTransition.deviceJid transitions
      in foldl (\<lambda>durations ts.
                  let sorted = sort_key StateTransition.timestamp ts
                  in foldl add_duration durations sorted)
           \<lparr> online = 0, standby = 0, offline = 0 \<rparr>
           (map snd deviceTransitions))"

definition performStatisticalAnalysis ::
  "RTTMeasurement list \<Rightarrow> StateTransition list \<Rightarrow> StatisticalAnalysis" where
  "performStatisticalAnalysis measurements transitions =
     (if length measurements = 0 then
        \<lparr> rttDistribution =
            \<lparr> min_rtt = 0, max_rtt = 0, mean = 0, median = 0, stdDev = 0, q1 = 0, q3 = 0, iqr = 0 \<rparr>,
          stateDurations = \<lparr> online = 0, standby = 0, offline = 0 \<rparr>,
          transitionFrequency =
            \<lparr> total = 0, onlineToStandby = 0, standbyToOnline = 0, toOffline = 0, fromOffline = 0 \<rparr>,
          networkQuality = \<lparr> avgQuality = 0, avgStability = 0, avgReliability = 0 \<rparr> \<rparr>
      else
        let rtts = map rtt measurements;
            sortedRtts = sort_numeric rtts;
            rttDistribution =
              \<lparr> min_rtt = stats_min rtts,
                max_rtt = stats_max rtts,
                mean = stats_mean rtts,
                median = stats_median rtts,
                stdDev = stats_standardDeviation rtts,
                q1 = stats_quantile sortedRtts 0.25,
                q3 = stats_quantile sortedRtts 0.75,
                iqr = stats_quantile sortedRtts 0.75 - stats_quantile sortedRtts 0.25 \<rparr>;
            stateDurations = calculateStateDurations measurements transitions;
            transitionFrequency =
              \<lparr> total = length transitions,
                onlineToStandby =
                  length (filter (\<lambda>t. fromState t = ''Online'' \<and> toState t = ''Standby'') transitions),
                standbyToOnline =
                  length (filter (\<lambda>t. fromState t = ''Standby'' \<and> toState t = ''Online'') transitions),
                toOffline = length (filter (\<lambda>t. toState t = ''OFFLINE'') transitions),
                fromOffline = length (filter (\<lambda>t. fromState t = ''OFFLINE'') transitions) \<rparr>;
            networkQualities =
              map (\<lambda>m. the (RTTMeasurement.networkQuality m))
                (filter (\<lambda>m. RTTMeasurement.networkQuality m \<noteq> None) measurements);
            networkQuality =
              \<lparr> avgQuality = (if length networkQualities > 0 then stats_mean networkQualities else 0),
                avgStability = 0,
                avgReliability = 0 \<rparr>
        in \<lparr> rttDistribution = rttDistribution,
             stateDurations = stateDurations,
             transitionFrequency = transitionFrequency,
             networkQuality = networkQuality \<rparr>)"

subsection \<open>detectSleepWakePatterns\<close>

definition map_get_or_zero :: "('k \<times> nat) list \<Rightarrow> 'k \<Rightarrow> nat" where
  \<comment> \<open>\<open>m.get(k) || 0\<close>\<close>
  "map_get_or_zero m k = (case map_of m k of None \<Rightarrow> 0 | Some c \<Rightarrow> c)"

definition mean_activity :: "(nat \<times> nat) list \<Rightarrow> real" where
  \<comment> \<open>\<open>Array.from(hourActivity.values()).reduce((a, b) => a + b, 0) / hourActivity.size\<close>\<close>
  "mean_activity hourActivity =
     reduce_add (map (\<lambda>e. real (snd e)) hourActivity) / real (length hourActivity)"

definition findWakeTime :: "(nat \<times> nat) list \<Rightarrow> nat list \<Rightarrow> nat option" where
  \<comment> \<open>The loop over the hours 0 to 23 returns at the first hour that passes both tests.\<close>
  "findWakeTime hourActivity lowActivityHours =
     (let avgActivity = mean_activity hourActivity
      in find (\<lambda>hour. \<not> (hour \<in> set lowActivityHours)
                       \<and> real (map_get_or_zero hourActivity hour) > avgActivity * 1.5)
           [0..<24])"

definition findSleepTime :: "(nat \<times> nat) list \<Rightarrow> nat list \<Rightarrow> nat option" where
  "findSleepTime hourActivity lowActivityHours =
     (let avgActivity = mean_activity hourActivity
      in find (\<lambda>hour. hour \<in> set lowActivityHours
                       \<and> real (map_get_or_zero hourActivity hour) < avgActivity * 0.5)
           [0..<24])"

definition count_by_hour :: "(int \<Rightarrow> int) \<Rightarrow> RTTMeasurement list \<Rightarrow> (nat \<times> nat) list" where
  \<comment> \<open>The loop that builds \<open>hourActivity\<close>.\<close>
  "count_by_hour tz measurements =
     foldl (\<lambda>hourActivity m. map_increment (getHours tz (timestamp m)) hourActivity) [] measurements"

definition low_activity_hours :: "(nat \<times> nat) list \<Rightarrow> nat list" where
  \<comment> \<open>\<open>Array.from(hourActivity.entries()).sort((a, b) => a[1] - b[1]).slice(0, 6).map(([hour]) => hour)\<close>;
      the sort is stable.\<close>
  "low_activity_hours hourActivity = map fst (take 6 (sort_key snd hourActivity))"

definition detectSleepWakePatterns :: "(int \<Rightarrow> int) \<Rightarrow> RTTMeasurement list \<Rightarrow> SleepWakeDetection" where
  "detectSleepWakePatterns tz measurements =
     (if length measurements < 100
      then \<lparr> typicalWakeTime = None, typicalSleepTime = None, sleepPatternDetected = False \<rparr>
      else
        let hourActivity = count_by_hour tz measurements;
            lowActivityHours = low_activity_hours hourActivity;
            wakeTime = findWakeTime hourActivity lowActivityHours;
            sleepTime = findSleepTime hourActivity lowActivityHours
        in \<lparr> typicalWakeTime = wakeTime,
             typicalSleepTime = sleepTime,
             sleepPatternDetected = (wakeTime \<noteq> None \<or> sleepTime \<noteq> None) \<rparr>)"

subsection \<open>generateBehavioralInsights\<close>

definition minute_of :: "int \<Rightarrow> int" where
  \<comment> \<open>\<open>Math.floor(timestamp / 60000) * 60000\<close>\<close>
  "minute_of t = (t div 60000) * 60000"

definition device_timestamps :: "RTTMeasurement list \<Rightarrow> (string \<times> int list) list" where
  \<comment> \<open>The loop that builds \<open>deviceTimestamps\<close>: per device, the set of its minutes.\<close>
  "device_timestamps measurements =
     foldl (\<lambda>deviceTimestamps m.
              map_add_to_set (RTTMeasurement.deviceJid m) (minute_of (timestamp m)) deviceTimestamps)
       [] measurements"

definition all_minutes :: "(string \<times> int list) list \<Rightarrow> int list" where
  \<comment> \<open>The nested iteration that adds every minute of every device to \<open>allMinutes\<close>.\<close>
  "all_minutes deviceTimestamps =
     foldl (\<lambda>allMinutes timestamps. foldl (\<lambda>s minute. set_add minute s) allMinutes timestamps)
       [] (map snd deviceTimestamps)"

definition active_devices :: "(string \<times> int list) list \<Rightarrow> int \<Rightarrow> nat" where
  \<comment> \<open>The loop that counts the devices whose set has the minute.\<close>
  "active_devices deviceTimestamps minute =
     foldl (\<lambda>activeDevices timestamps.
              if minute \<in> set timestamps then activeDevices + 1 else activeDevices)
       0 (map snd deviceTimestamps)"

definition generateBehavioralInsights ::
  "(int \<Rightarrow> int) \<Rightarrow> int \<Rightarrow> RTTMeasurement list \<Rightarrow> StateTransition list \<Rightarrow> int \<Rightarrow> int option
     \<Rightarrow> BehavioralInsights" where
  \<comment> \<open>\<open>now\<close> is the reading of the clock, \<open>new Date()\<close>, at the time of the call. An end
      time that is absent or zero fails the test \<open>sessionEndTime ? ... : ...\<close>.\<close>
  "generateBehavioralInsights tz now measurements transitions sessionStartTime sessionEndTime =
     (if length measurements = 0 then
        \<lparr> averageSessionLength = 0,
          peakActivityTimes = [],
          sleepWakeDetection =
            \<lparr> typicalWakeTime = None, typicalSleepTime = None, sleepPatternDetected = False \<rparr>,
          timezoneInference = None,
          deviceUsagePatterns = [],
          multiDeviceCoordination =
            \<lparr> simultaneousDevices = 0, avgSimultaneousDevices = 0, coordinationScore = 0 \<rparr>,
          responseTimePatterns =
            \<lparr> avgResponseTime = 0, fastestResponseTime = 0, slowestResponseTime = 0,
              responseTimeConsistency = 0 \<rparr> \<rparr>
      else
        let sessionDuration =
              (case sessionEndTime of
                 None \<Rightarrow> differenceInMinutes now sessionStartTime
               | Some e \<Rightarrow>
                   if e \<noteq> 0 then differenceInMinutes e sessionStartTime
                   else differenceInMinutes now sessionStartTime);
            daily = daily (analyzeActivityPatterns tz measurements);
            peakActivityTimes =
              take 5
                (sort_key (\<lambda>p. - int (activity p))
                   (map (\<lambda>(hour, d). \<lparr> PeakActivity.hour = hour, activity = DailyPattern.avgActivity d \<rparr>)
                      (zip [0..<length daily] daily)));
            sleepWake = detectSleepWakePatterns tz measurements;
            deviceMap = group_by RTTMeasurement.deviceJid measurements;
            totalMeasurements = length measurements;
            deviceUsagePatterns =
              map (\<lambda>(deviceJid, deviceMeasurements).
                     let avgRTT = sum_rtt deviceMeasurements / real (length deviceMeasurements)
                     in \<lparr> DeviceUsagePattern.deviceJid = deviceJid,
                          usagePercentage =
                            (real (length deviceMeasurements) / real totalMeasurements) * 100,
                          avgRTT = avgRTT \<rparr>)
                deviceMap;
            deviceTimestamps = device_timestamps measurements;
            allMinutes = all_minutes deviceTimestamps;
            simultaneousCount =
              foldl (\<lambda>simultaneousCount minute.
                       if active_devices deviceTimestamps minute > 1
                       then simultaneousCount + 1 else simultaneousCount)
                (0::nat) allMinutes;
            avgSimultaneousDevices =
              (if length allMinutes > 0
               then foldl (\<lambda>sum minute. sum + real (active_devices deviceTimestamps minute))
                      0 allMinutes / real (length allMinutes)
               else 1);
            coordinationScore =
              (if length allMinutes > 0
               then (real simultaneousCount / real (length allMinutes)) * 100
               else 0);
            onlineMeasurements = filter (\<lambda>m. state m = Online) measurements;
            responseTimes = map rtt onlineMeasurements;
            avgResponseTime = (if length responseTimes > 0 then stats_mean responseTimes else 0);
            fastestResponseTime = (if length responseTimes > 0 then stats_min responseTimes else 0);
            slowestResponseTime = (if length responseTimes > 0 then stats_max responseTimes else 0);
            responseTimeStdDev =
              (if length responseTimes > 0 then stats_standardDeviation responseTimes else 0);
            responseTimeConsistency =
              (if avgResponseTime > 0
               then max 0 (min 100 (100 - ((responseTimeStdDev / avgResponseTime) * 100)))
               else 0)
        in \<lparr> averageSessionLength = sessionDuration,
             peakActivityTimes = peakActivityTimes,
             sleepWakeDetection = sleepWake,
             timezoneInference = None,
             deviceUsagePatterns = deviceUsagePatterns,
             multiDeviceCoordination =
               \<lparr> simultaneousDevices = length deviceMap,
                 avgSimultaneousDevices = avgSimultaneousDevices,
                 coordinationScore = coordinationScore \<rparr>,
             responseTimePatterns =
               \<lparr> avgResponseTime = avgResponseTime,
                 fastestResponseTime = fastestResponseTime,
                 slowestResponseTime = slowestResponseTime,
                 responseTimeConsistency = responseTimeConsistency \<rparr> \<rparr>)"

section \<open>The specification's notions and sample inputs\<close>

subsection \<open>Network classifier\<close>

definition sorted_at :: "real list \<Rightarrow> real \<Rightarrow> real" where
  \<comment> \<open>The order statistic of the specification: sort ascending, index \<open>floor(length * p)\<close>.\<close>
  "sorted_at h p = sort h ! nat \<lfloor>real (length h) * p\<rfloor>"


definition first_half_average :: "real list \<Rightarrow> real" where
  "first_half_average h = sum_list (take (length h div 2) h) / real (length h div 2)"

definition second_half_average :: "real list \<Rightarrow> real" where
  "second_half_average h =
     sum_list (drop (length h div 2) h) / real (length h - length h div 2)"




subsection \<open>Sample measurements\<close>

definition measurement :: "string \<Rightarrow> int \<Rightarrow> real \<Rightarrow> presence_state \<Rightarrow> RTTMeasurement" where
  \<comment> \<open>A measurement of a device at an instant, with no optional field set.\<close>
  "measurement device t r st =
     \<lparr> row_id = None, sessionId = ''s1'', jid = ''peer'', deviceJid = device, rtt = r,
       timestamp = t, state = st, networkType = None, networkQuality = None, avgRtt = None,
       medianRtt = None, threshold = None \<rparr>"

definition utc :: "int \<Rightarrow> int" where
  \<comment> \<open>The time zone with no offset.\<close>
  "utc t = 0"

definition four_rtts :: "RTTMeasurement list" where
  "four_rtts =
     [measurement ''A'' 0 10 Online, measurement ''A'' 1000 20 Online,
      measurement ''A'' 2000 30 Online, measurement ''A'' 3000 40 Online]"

definition a_transition :: StateTransition where
  "a_transition =
     \<lparr> StateTransition.row_id = None, sessionId = ''s1'', jid = ''peer'', deviceJid = ''A'',
       fromState = ''Online'', toState = ''OFFLINE'', timestamp = 5000, duration = Some 60000 \<rparr>"

definition two_devices :: "RTTMeasurement list" where
  \<comment> \<open>Device A in the minutes 0, 1 and 2, device B in the minutes 1 and 2.\<close>
  "two_devices =
     [measurement ''A'' 0 100 Online, measurement ''A'' 60000 100 Online,
      measurement ''B'' 61000 100 Online, measurement ''A'' 120000 100 Online,
      measurement ''B'' 130000 100 Online]"

definition non_null_qualities :: "RTTMeasurement list \<Rightarrow> real list" where
  \<comment> \<open>The \<open>networkQuality\<close> fields that are present, in the order of the measurements.\<close>
  "non_null_qualities ms = List.map_filter RTTMeasurement.networkQuality ms"

subsection \<open>Keys in the order of their first occurrence\<close>

definition first_occurrences :: "'a list \<Rightarrow> 'a list" where
  \<comment> \<open>The distinct elements of a list, each at the place of its first occurrence.\<close>
  "first_occurrences xs = rev (remdups (rev xs))"

subsection \<open>Sleep and wake detection\<close>

definition hour_count :: "(int \<Rightarrow> int) \<Rightarrow> RTTMeasurement list \<Rightarrow> nat \<Rightarrow> nat" where
  \<comment> \<open>The number of measurements in an hour of the day.\<close>
  "hour_count tz ms h = length (filter (\<lambda>m. getHours tz (timestamp m) = h) ms)"

definition observed_hours :: "(int \<Rightarrow> int) \<Rightarrow> RTTMeasurement list \<Rightarrow> nat set" where
  \<comment> \<open>The hours of the day that have at least one measurement.\<close>
  "observed_hours tz ms = (\<lambda>m. getHours tz (timestamp m)) ` set ms"

text \<open>
  The detection as claim C7 words it, over the 24 hours of the day: the 6 hours of lowest
  count (the earlier hour first among equal counts) and the mean of the 24 hourly counts.
\<close>

definition day_low_activity_hours :: "(int \<Rightarrow> int) \<Rightarrow> RTTMeasurement list \<Rightarrow> nat list" where
  "day_low_activity_hours tz ms =
     map fst (take 6 (sort_key snd (map (\<lambda>h. (h, hour_count tz ms h)) [0..<24])))"

definition day_mean_count :: "RTTMeasurement list \<Rightarrow> real" where
  "day_mean_count ms = real (length ms) / 24"

definition day_wake_time :: "(int \<Rightarrow> int) \<Rightarrow> RTTMeasurement list \<Rightarrow> nat option" where
  "day_wake_time tz ms =
     find (\<lambda>h. h \<notin> set (day_low_activity_hours tz ms)
                \<and> real (hour_count tz ms h) > 1.5 * day_mean_count ms)
       [0..<24]"

definition noon_100 :: "RTTMeasurement list" where
  \<comment> \<open>A hundred measurements, all at 12:00 UTC of the first day.\<close>
  "noon_100 = replicate 100 (measurement ''A'' 43200000 100 Online)"

definition busy_noon :: "RTTMeasurement list" where
  \<comment> \<open>Two measurements in each of the hours 0 to 5 and a hundred at 12:00, all UTC.\<close>
  "busy_noon =
     replicate 2 (measurement ''A'' 0 100 Online)
     @ replicate 2 (measurement ''A'' 3600000 100 Online)
     @ replicate 2 (measurement ''A'' 7200000 100 Online)
     @ replicate 2 (measurement ''A'' 10800000 100 Online)
     @ replicate 2 (measurement ''A'' 14400000 100 Online)
     @ replicate 2 (measurement ''A'' 18000000 100 Online)
     @ replicate 100 (measurement ''A'' 43200000 100 Online)"

section \<open>Properties\<close>

subsection \<open>Sums and variance\<close>

lemma foldl_add_sum_list: "foldl (+) a xs = a + sum_list (xs :: real list)"
  by (induction xs arbitrary: a) (simp_all add: add.assoc)

lemma reduce_add_sum_list: "reduce_add xs = sum_list xs"
  by (simp add: reduce_add_def foldl_add_sum_list)

lemma calculateVariance_population:
  "calculateVariance xs =
     (if xs = [] then 0
      else (\<Sum>x\<leftarrow>xs. (x - sum_list xs / real (length xs)) ^ 2) / real (length xs))"
  by (simp add: calculateVariance_def reduce_add_sum_list Let_def)

lemma calculateVariance_nonneg: "0 \<le> calculateVariance xs"
  by (auto simp: calculateVariance_population intro!: divide_nonneg_nonneg sum_list_nonneg)

lemma sorted_at_indices:
  "nat \<lfloor>real n * 0.5\<rfloor> = n div 2" "nat \<lfloor>real n * 0.25\<rfloor> = n div 4"
  "nat \<lfloor>real n * 0.75\<rfloor> = (3 * n) div 4"
proof -
  have "real n * 0.5 = real n / real 2" "real n * 0.25 = real n / real 4"
    "real n * 0.75 = real (3 * n) / real 4" by simp_all
  then show "nat \<lfloor>real n * 0.5\<rfloor> = n div 2" "nat \<lfloor>real n * 0.25\<rfloor> = n div 4"
  "nat \<lfloor>real n * 0.75\<rfloor> = (3 * n) div 4"
    by (simp_all only: floor_divide_of_nat_eq nat_int)
qed

subsection \<open>Ranges of the network scores\<close>

lemma Math_round_nonneg: "0 \<le> x \<Longrightarrow> 0 \<le> Math_round x"
  by (simp add: Math_round_def)

lemma Math_round_le_100: "x \<le> 100 \<Longrightarrow> Math_round x \<le> 100"
proof -
  assume "x \<le> 100"
  then have "x + 1 / 2 < 101" by simp
  then have "\<lfloor>x + 1 / 2\<rfloor> < 101" by (simp add: floor_less_iff)
  then have "\<lfloor>x + 1 / 2\<rfloor> \<le> 100" by simp
  then have "(of_int \<lfloor>x + 1 / 2\<rfloor> :: real) \<le> of_int 100" by (simp only: of_int_le_iff)
  then show ?thesis by (simp add: Math_round_def)
qed

lemma calculateNetworkQuality_range:
  "0 \<le> calculateNetworkQuality h \<and> calculateNetworkQuality h \<le> 100"
proof (cases "length h < 5")
  case True
  then show ?thesis by (simp add: calculateNetworkQuality_def)
next
  case False
  define l where "l = max 0 (min 100 (100 - ((reduce_add h / real (length h) - 100) / 19)))"
  define s where "s = max 0 (min 100 (100 - ((sqrt (calculateVariance h) - 50) / 4.5)))"
  have l: "0 \<le> l" "l \<le> 100" and s: "0 \<le> s" "s \<le> 100"
    by (simp_all add: l_def s_def)
  have eq: "calculateNetworkQuality h = Math_round (l * 0.6 + s * 0.4)"
    using False by (simp add: calculateNetworkQuality_def Let_def l_def s_def)
  have "0 \<le> l * 0.6 + s * 0.4" "l * 0.6 + s * 0.4 \<le> 100"
    using l s by simp_all
  then show ?thesis
    unfolding eq using Math_round_nonneg Math_round_le_100 by blast
qed

lemma calculateConnectionStability_range:
  "0 \<le> calculateConnectionStability h \<and> calculateConnectionStability h \<le> 100"
  by (simp add: calculateConnectionStability_def Let_def)

lemma calculatePacketLossIndicator_range:
  "0 \<le> calculatePacketLossIndicator h t \<and> calculatePacketLossIndicator h t \<le> 100"
  by (simp add: calculatePacketLossIndicator_def Let_def Math_round_nonneg)

text \<open>
  The reliability score stays in range when no more samples lie under the timeout
  threshold than probes were sent, as at the call in the network-analysis endpoint, which
  passes the number of measurements as \<open>totalProbes\<close>.
\<close>

lemma calculateConnectionReliability_range:
  assumes "0 \<le> totalProbes"
    and "real (length (filter (\<lambda>rtt. rtt < t) h)) \<le> totalProbes"
  shows "0 \<le> calculateConnectionReliability h totalProbes t
       \<and> calculateConnectionReliability h totalProbes t \<le> 100"
proof (cases "totalProbes = 0")
  case True
  then show ?thesis by (simp add: calculateConnectionReliability_def)
next
  case False
  define r where "r = real (length (filter (\<lambda>rtt. rtt < t) h)) / totalProbes * 100"
  define s where "s = calculateConnectionStability h"
  have pos: "0 < totalProbes" using False assms(1) by simp
  have r: "0 \<le> r" "r \<le> 100"
    using pos assms(2) by (simp_all add: r_def divide_le_eq)
  have s: "0 \<le> s" "s \<le> 100"
    using calculateConnectionStability_range by (simp_all add: s_def)
  have eq: "calculateConnectionReliability h totalProbes t = Math_round (r * 0.7 + s * 0.3)"
    using False by (simp add: calculateConnectionReliability_def Let_def r_def s_def)
  have "0 \<le> r * 0.7 + s * 0.3" "r * 0.7 + s * 0.3 \<le> 100"
    using r s by simp_all
  then show ?thesis
    unfolding eq using Math_round_nonneg Math_round_le_100 by blast
qed

lemma analyzeNetwork_reliability_range:
  "0 \<le> connectionReliability (analyzeNetwork h (real (length h)))
   \<and> connectionReliability (analyzeNetwork h (real (length h))) \<le> 100"
  using calculateConnectionReliability_range [of "real (length h)" defaultTimeoutThreshold h]
  by (simp add: analyzeNetwork_def)

text \<open>
  Claim C3: for every finite sequence of non-negative samples, and every non-negative
  \<open>totalProbes\<close> with the default timeout threshold, the quality, stability, packet
  loss and reliability scores lie in the interval from 0 to 100.

  The first three do (the three lemmas above). \<open>calculateConnectionReliability\<close>,
  documented in the source as a score from 0 to 100, divides the number of samples under
  the threshold by \<open>totalProbes\<close> and does not clamp the result as its siblings do: two
  samples of 100 ms against one probe score 155.
\<close>

theorem calculateConnectionReliability_exceeds_100:
  "calculateConnectionReliability [100, 100] 1 defaultTimeoutThreshold = 155"
  by (simp add: calculateConnectionReliability_def calculateConnectionStability_def
      defaultTimeoutThreshold_def Math_round_def Let_def)

subsection \<open>Network type\<close>



subsection \<open>Division by zero\<close>

lemma detectLatencyTrend_zero_first_half:
  assumes "length h \<ge> 20" and "first_half_average h = 0"
  shows "detectLatencyTrend h =
           (if second_half_average h < 0 then Improving
            else if second_half_average h > 0 then Degrading
            else Stable)"
proof -
  have len: "length (take (length h div 2) h) = length h div 2"
    "length (drop (length h div 2) h) = length h - length h div 2"
    by simp_all
  have f: "reduce_add (take (length h div 2) h) / real (length (take (length h div 2) h)) = 0"
    using assms(2) unfolding first_half_average_def reduce_add_sum_list len .
  have s: "reduce_add (drop (length h div 2) h) / real (length (drop (length h div 2) h))
             = second_half_average h"
    unfolding second_half_average_def reduce_add_sum_list len ..
  have "\<not> length h < 20" using assms(1) by simp
  then have "detectLatencyTrend h =
      (let change = js_times (js_div (second_half_average h - 0) 0) 100
       in if js_less change (- 10) then Improving
          else if js_greater change 10 then Degrading
          else Stable)"
    unfolding detectLatencyTrend_def Let_def f s by simp
  then show ?thesis
    by (simp add: js_div_def Let_def)
qed



subsection \<open>Statistical analysis\<close>

text \<open>
  Claim C8: for every list of transitions, empty or not, \<open>performStatisticalAnalysis\<close> on
  an empty list of measurements returns the all-zero record: an all-zero RTT distribution,
  state durations and network quality, and a transition frequency with total 0 and the
  four sub-counts 0. The transitions are not consulted.
\<close>

theorem performStatisticalAnalysis_empty:
  "performStatisticalAnalysis [] transitions =
     \<lparr> rttDistribution =
         \<lparr> min_rtt = 0, max_rtt = 0, mean = 0, median = 0, stdDev = 0, q1 = 0, q3 = 0, iqr = 0 \<rparr>,
       stateDurations = \<lparr> online = 0, standby = 0, offline = 0 \<rparr>,
       transitionFrequency =
         \<lparr> total = 0, onlineToStandby = 0, standbyToOnline = 0, toOffline = 0, fromOffline = 0 \<rparr>,
       networkQuality = \<lparr> avgQuality = 0, avgStability = 0, avgReliability = 0 \<rparr> \<rparr>"
  by (simp add: performStatisticalAnalysis_def)

theorem performStatisticalAnalysis_empty_witness:
  "total (transitionFrequency (performStatisticalAnalysis [] [a_transition, a_transition])) = 0
   \<and> offline (stateDurations (performStatisticalAnalysis [] [a_transition])) = 0"
  using performStatisticalAnalysis_empty [of "[a_transition, a_transition]"]
    performStatisticalAnalysis_empty [of "[a_transition]"]
  by simp

lemma map_the_filter_Some: "map (\<lambda>x. the (f x)) (filter (\<lambda>x. f x \<noteq> None) xs) = List.map_filter f xs"
  by (induction xs) (auto simp: List.map_filter_simps)

text \<open>
  Claim C9: for all measurements and transitions, the network-quality rollup of
  \<open>performStatisticalAnalysis\<close> has \<open>avgStability = 0\<close> and \<open>avgReliability = 0\<close>, and
  \<open>avgQuality\<close> is the mean of the \<open>networkQuality\<close> fields that are present, 0 if none is.
\<close>

theorem networkQuality_rollup:
  "avgStability (StatisticalAnalysis.networkQuality (performStatisticalAnalysis ms ts)) = 0
   \<and> avgReliability (StatisticalAnalysis.networkQuality (performStatisticalAnalysis ms ts)) = 0
   \<and> avgQuality (StatisticalAnalysis.networkQuality (performStatisticalAnalysis ms ts)) =
       (if non_null_qualities ms = [] then 0
        else sum_list (non_null_qualities ms) / real (length (non_null_qualities ms)))"
proof (cases "ms = []")
  case True
  then show ?thesis
    by (simp add: performStatisticalAnalysis_def non_null_qualities_def List.map_filter_simps)
next
  case False
  have eq: "map (\<lambda>m. the (RTTMeasurement.networkQuality m))
              (filter (\<lambda>m. RTTMeasurement.networkQuality m \<noteq> None) ms) = non_null_qualities ms"
    by (simp only: map_the_filter_Some non_null_qualities_def)
  from False have "\<not> length ms = 0" by simp
  then show ?thesis
    unfolding performStatisticalAnalysis_def Let_def eq by (simp add: stats_mean_def)
qed

theorem networkQuality_rollup_witness:
  "avgQuality (StatisticalAnalysis.networkQuality (performStatisticalAnalysis
      [(measurement ''A'' 0 10 Online)\<lparr> RTTMeasurement.networkQuality := Some 80 \<rparr>,
       measurement ''A'' 1000 20 Online,
       (measurement ''A'' 2000 30 Online)\<lparr> RTTMeasurement.networkQuality := Some 60 \<rparr>]
      [a_transition])) = 70
  \<and> avgQuality (StatisticalAnalysis.networkQuality (performStatisticalAnalysis four_rtts [])) = 0"
  using networkQuality_rollup [of "[(measurement ''A'' 0 10 Online)\<lparr> RTTMeasurement.networkQuality := Some 80 \<rparr>,
       measurement ''A'' 1000 20 Online,
       (measurement ''A'' 2000 30 Online)\<lparr> RTTMeasurement.networkQuality := Some 60 \<rparr>]" "[a_transition]"]
     networkQuality_rollup [of four_rtts "[]"]
  by (simp add: non_null_qualities_def List.map_filter_simps measurement_def four_rtts_def)

lemma rttDistribution_four:
  assumes "map rtt ms = [10, 20, 30, 40]"
  shows "min_rtt (rttDistribution (performStatisticalAnalysis ms ts)) = 10"
    "max_rtt (rttDistribution (performStatisticalAnalysis ms ts)) = 40"
    "mean (rttDistribution (performStatisticalAnalysis ms ts)) = 25"
    "median (rttDistribution (performStatisticalAnalysis ms ts)) = 25"
    "q1 (rttDistribution (performStatisticalAnalysis ms ts)) = 15"
    "q3 (rttDistribution (performStatisticalAnalysis ms ts)) = 35"
    "iqr (rttDistribution (performStatisticalAnalysis ms ts)) = 20"
proof -
  have ne: "length ms \<noteq> 0" using assms by auto
  show "min_rtt (rttDistribution (performStatisticalAnalysis ms ts)) = 10"
    using ne by (simp add: performStatisticalAnalysis_def Let_def assms stats_min_def)
  show "max_rtt (rttDistribution (performStatisticalAnalysis ms ts)) = 40"
    using ne by (simp add: performStatisticalAnalysis_def Let_def assms stats_max_def)
  show "mean (rttDistribution (performStatisticalAnalysis ms ts)) = 25"
    using ne by (simp add: performStatisticalAnalysis_def Let_def assms stats_mean_def)
  show "median (rttDistribution (performStatisticalAnalysis ms ts)) = 25"
    using ne by (simp add: performStatisticalAnalysis_def Let_def assms stats_median_def stats_quantile_def)
  show "q1 (rttDistribution (performStatisticalAnalysis ms ts)) = 15"
    using ne by (simp add: performStatisticalAnalysis_def Let_def assms sort_numeric_def stats_quantile_def)
  show "q3 (rttDistribution (performStatisticalAnalysis ms ts)) = 35"
    using ne by (simp add: performStatisticalAnalysis_def Let_def assms sort_numeric_def stats_quantile_def)
  show "iqr (rttDistribution (performStatisticalAnalysis ms ts)) = 20"
    using ne by (simp add: performStatisticalAnalysis_def Let_def assms sort_numeric_def stats_quantile_def)
qed

lemma map_rtt_four_rtts: "map rtt four_rtts = [10, 20, 30, 40]"
  by (simp add: four_rtts_def measurement_def)

text \<open>
  Claim C2, as stated: on measurements whose RTTs are 10, 20, 30, 40 the RTT distribution
  is min 10, max 40, mean 25, median 25, q1 20, q3 30, iqr 10, the quantiles being
  nearest-rank. It is not: the code's third quartile is 35 and its quartile range 20, and
  the nearest-rank quartiles differ by 20 as well.
\<close>

theorem rttDistribution_example_counterexample:
  "\<not> (min_rtt (rttDistribution (performStatisticalAnalysis four_rtts [])) = 10
      \<and> max_rtt (rttDistribution (performStatisticalAnalysis four_rtts [])) = 40
      \<and> mean (rttDistribution (performStatisticalAnalysis four_rtts [])) = 25
      \<and> median (rttDistribution (performStatisticalAnalysis four_rtts [])) = 25
      \<and> q1 (rttDistribution (performStatisticalAnalysis four_rtts [])) = 20
      \<and> q3 (rttDistribution (performStatisticalAnalysis four_rtts [])) = 30
      \<and> iqr (rttDistribution (performStatisticalAnalysis four_rtts [])) = 10)
   \<and> sorted_at [10, 20, 30, 40] 0.75 \<noteq> 30
   \<and> sorted_at [10, 20, 30, 40] 0.75 - sorted_at [10, 20, 30, 40] 0.25 \<noteq> 10"
  by (simp add: rttDistribution_four [OF map_rtt_four_rtts] sorted_at_def)

text \<open>
  Claim C2, amended: on measurements whose RTTs are 10, 20, 30, 40, and any transitions,
  the RTT distribution has min 10, max 40, mean 25, median 25, q1 15, q3 35 and iqr 20.
  The quantiles are those of the statistics package, which at an integral index
  \<open>length * p\<close> of a sample of even length takes the mean of the two neighbouring order
  statistics. The nearest-rank method (sort ascending, index \<open>floor(length * p)\<close>) gives
  30, 20 and 40 for the median and the two quartiles of this sample.
\<close>

theorem rttDistribution_example:
  "map rtt ms = [10, 20, 30, 40] \<longrightarrow>
     min_rtt (rttDistribution (performStatisticalAnalysis ms ts)) = 10
     \<and> max_rtt (rttDistribution (performStatisticalAnalysis ms ts)) = 40
     \<and> mean (rttDistribution (performStatisticalAnalysis ms ts)) = 25
     \<and> median (rttDistribution (performStatisticalAnalysis ms ts)) = 25
     \<and> q1 (rttDistribution (performStatisticalAnalysis ms ts)) = 15
     \<and> q3 (rttDistribution (performStatisticalAnalysis ms ts)) = 35
     \<and> iqr (rttDistribution (performStatisticalAnalysis ms ts)) = 20
     \<and> sorted_at (map rtt ms) 0.5 = 30
     \<and> sorted_at (map rtt ms) 0.25 = 20
     \<and> sorted_at (map rtt ms) 0.75 = 40"
proof
  assume a: "map rtt ms = [10, 20, 30, 40]"
  have "sorted_at (map rtt ms) 0.5 = 30" "sorted_at (map rtt ms) 0.25 = 20"
    "sorted_at (map rtt ms) 0.75 = 40"
    unfolding a by (simp_all add: sorted_at_def)
  then show "min_rtt (rttDistribution (performStatisticalAnalysis ms ts)) = 10
     \<and> max_rtt (rttDistribution (performStatisticalAnalysis ms ts)) = 40
     \<and> mean (rttDistribution (performStatisticalAnalysis ms ts)) = 25
     \<and> median (rttDistribution (performStatisticalAnalysis ms ts)) = 25
     \<and> q1 (rttDistribution (performStatisticalAnalysis ms ts)) = 15
     \<and> q3 (rttDistribution (performStatisticalAnalysis ms ts)) = 35
     \<and> iqr (rttDistribution (performStatisticalAnalysis ms ts)) = 20
     \<and> sorted_at (map rtt ms) 0.5 = 30
     \<and> sorted_at (map rtt ms) 0.25 = 20
     \<and> sorted_at (map rtt ms) 0.75 = 40"
    using rttDistribution_four [OF a] by simp
qed

theorem rttDistribution_example_witness:
  "map rtt four_rtts = [10, 20, 30, 40]
   \<and> median (rttDistribution (performStatisticalAnalysis four_rtts [a_transition])) = 25
   \<and> q1 (rttDistribution (performStatisticalAnalysis four_rtts [a_transition])) = 15
   \<and> q3 (rttDistribution (performStatisticalAnalysis four_rtts [a_transition])) = 35
   \<and> iqr (rttDistribution (performStatisticalAnalysis four_rtts [a_transition])) = 20"
  using rttDistribution_example [of four_rtts "[a_transition]"] map_rtt_four_rtts by simp

subsection \<open>Activity patterns\<close>

text \<open>
  Claim C1, as stated: for every input, the empty list included, the daily pattern has 24
  entries and the weekly pattern 7. On the empty list the function returns at its first
  line, with empty lists.
\<close>

theorem analyzeActivityPatterns_empty_counterexample:
  "\<not> (length (daily (analyzeActivityPatterns utc [])) = 24
      \<and> length (weekly (analyzeActivityPatterns utc [])) = 7)"
  by (simp add: analyzeActivityPatterns_def)

text \<open>
  Claim C1, amended: for every non-empty list of measurements, the daily pattern has
  exactly 24 entries, for the hours 0 to 23 in order, and the weekly pattern exactly 7,
  for the days 0 to 6 in order; for the empty list, the daily pattern, the weekly pattern
  and the heatmap are empty.
\<close>

theorem analyzeActivityPatterns_lengths:
  "(ms \<noteq> [] \<longrightarrow>
      length (daily (analyzeActivityPatterns tz ms)) = 24
      \<and> map DailyPattern.hour (daily (analyzeActivityPatterns tz ms)) = [0..<24]
      \<and> length (weekly (analyzeActivityPatterns tz ms)) = 7
      \<and> map WeeklyPattern.day (weekly (analyzeActivityPatterns tz ms)) = [0..<7])
   \<and> (ms = [] \<longrightarrow>
      analyzeActivityPatterns tz ms = \<lparr> daily = [], weekly = [], heatmap = [] \<rparr>)"
proof (intro conjI impI)
  assume "ms = []"
  then show "analyzeActivityPatterns tz ms = \<lparr> daily = [], weekly = [], heatmap = [] \<rparr>"
    by (simp add: analyzeActivityPatterns_def)
next
  assume ne: "ms \<noteq> []"
  then have l: "length ms \<noteq> 0" by simp
  show "map DailyPattern.hour (daily (analyzeActivityPatterns tz ms)) = [0..<24]"
    using l by (simp add: analyzeActivityPatterns_def Let_def o_def del: upt_rec_numeral)
  then show "length (daily (analyzeActivityPatterns tz ms)) = 24"
    using l by (simp add: analyzeActivityPatterns_def Let_def del: upt_rec_numeral)
  show "map WeeklyPattern.day (weekly (analyzeActivityPatterns tz ms)) = [0..<7]"
    using l by (simp add: analyzeActivityPatterns_def Let_def o_def del: upt_rec_numeral)
  then show "length (weekly (analyzeActivityPatterns tz ms)) = 7"
    using l by (simp add: analyzeActivityPatterns_def Let_def del: upt_rec_numeral)
qed

theorem analyzeActivityPatterns_lengths_witness:
  "four_rtts \<noteq> []
   \<and> length (daily (analyzeActivityPatterns utc four_rtts)) = 24
   \<and> length (weekly (analyzeActivityPatterns utc four_rtts)) = 7
   \<and> heatmap (analyzeActivityPatterns utc []) = []"
  using analyzeActivityPatterns_lengths [of four_rtts utc]
    analyzeActivityPatterns_lengths [of "[]" utc]
  by (simp add: four_rtts_def)

subsection \<open>Maps filled by a loop\<close>

text \<open>
  A loop that files each element of a list under its key leaves the keys in the order of
  their first occurrence, each with the fold of its own elements.
\<close>

lemma first_occurrences_snoc:
  "first_occurrences (xs @ [x]) =
     (if x \<in> set xs then first_occurrences xs else first_occurrences xs @ [x])"
  by (simp add: first_occurrences_def)

lemma first_occurrences_Nil: "first_occurrences [] = []"
  by (simp add: first_occurrences_def)

lemma set_first_occurrences: "set (first_occurrences xs) = set xs"
  by (simp add: first_occurrences_def)

lemma distinct_first_occurrences: "distinct (first_occurrences xs)"
  by (simp add: first_occurrences_def)

lemma length_first_occurrences: "length (first_occurrences xs) = card (set xs)"
  by (metis distinct_card distinct_first_occurrences set_first_occurrences)

lemma map_of_tabulate:
  "map_of (map (\<lambda>k. (k, g k)) ks) k = (if k \<in> set ks then Some (g k) else None)"
  by (induction ks) auto

lemma map_set_tabulate_old:
  "k \<in> set ks \<Longrightarrow> distinct ks \<Longrightarrow>
     map_set k v (map (\<lambda>k'. (k', g k')) ks) = map (\<lambda>k'. (k', if k' = k then v else g k')) ks"
  by (induction ks) auto

lemma map_set_tabulate_new:
  "k \<notin> set ks \<Longrightarrow> map_set k v (map (\<lambda>k'. (k', g k')) ks) = map (\<lambda>k'. (k', g k')) ks @ [(k, v)]"
  by (induction ks) auto

lemma filter_key_absent: "k \<notin> set (map key xs) \<Longrightarrow> filter (\<lambda>y. key y = k) xs = []"
  by (induction xs) auto

lemma foldl_map_set_tabulate:
  "foldl (\<lambda>m x. map_set (key x) (upd (case map_of m (key x) of None \<Rightarrow> init | Some v \<Rightarrow> v) x) m) [] xs
     = map (\<lambda>k. (k, foldl upd init (filter (\<lambda>x. key x = k) xs))) (first_occurrences (map key xs))"
proof (induction xs rule: rev_induct)
  case Nil
  then show ?case by (simp add: first_occurrences_Nil)
next
  case (snoc x xs)
  let ?g = "\<lambda>k. foldl upd init (filter (\<lambda>x. key x = k) xs)"
  let ?ks = "first_occurrences (map key xs)"
  show ?case
  proof (cases "key x \<in> set (map key xs)")
    case True
    then have mem: "key x \<in> set ?ks" by (simp add: set_first_occurrences)
    have "map_set (key x) (upd (?g (key x)) x) (map (\<lambda>k. (k, ?g k)) ?ks)
            = map (\<lambda>k'. (k', if k' = key x then upd (?g (key x)) x else ?g k')) ?ks"
      using mem distinct_first_occurrences by (rule map_set_tabulate_old)
    moreover have "map_of (map (\<lambda>k. (k, ?g k)) ?ks) (key x) = Some (?g (key x))"
      using mem by (simp add: map_of_tabulate)
    ultimately show ?thesis
      using True mem by (simp add: snoc.IH first_occurrences_snoc)
  next
    case False
    then have mem: "key x \<notin> set ?ks" by (simp add: set_first_occurrences)
    have "map_set (key x) (upd init x) (map (\<lambda>k. (k, ?g k)) ?ks)
            = map (\<lambda>k. (k, ?g k)) ?ks @ [(key x, upd init x)]"
      using mem by (rule map_set_tabulate_new)
    moreover have "map_of (map (\<lambda>k. (k, ?g k)) ?ks) (key x) = None"
      using mem by (simp add: map_of_tabulate)
    moreover have "filter (\<lambda>y. key y = key x) xs = []"
      using False by (rule filter_key_absent)
    ultimately show ?thesis
      using False mem by (simp add: snoc.IH first_occurrences_snoc)
  qed
qed

lemma foldl_snoc_id: "foldl (\<lambda>vs x. vs @ [x]) acc xs = acc @ xs"
  by (induction xs arbitrary: acc) simp_all

lemma foldl_count: "foldl (\<lambda>c x. Suc c) acc xs = acc + length xs"
  by (induction xs arbitrary: acc) simp_all

lemma foldl_set_add_map: "foldl (\<lambda>s x. set_add (f x) s) [] xs = first_occurrences (map f xs)"
  by (induction xs rule: rev_induct) (simp_all add: first_occurrences_Nil first_occurrences_snoc set_add_def set_first_occurrences)

lemma group_by_tabulate:
  "group_by key xs = map (\<lambda>k. (k, filter (\<lambda>x. key x = k) xs)) (first_occurrences (map key xs))"
  unfolding group_by_def map_push_def
  using foldl_map_set_tabulate [of key "\<lambda>vs x. vs @ [x]" "[]" xs]
  by (simp add: foldl_snoc_id)

lemma count_by_hour_tabulate:
  "count_by_hour tz ms =
     map (\<lambda>h. (h, length (filter (\<lambda>m. getHours tz (timestamp m) = h) ms)))
       (first_occurrences (map (\<lambda>m. getHours tz (timestamp m)) ms))"
  unfolding count_by_hour_def map_increment_def
  using foldl_map_set_tabulate [of "\<lambda>m. getHours tz (timestamp m)" "\<lambda>c x. c + 1" "0::nat" ms]
  by (simp add: foldl_count)

lemma device_timestamps_tabulate:
  "device_timestamps ms =
     map (\<lambda>d. (d, first_occurrences
                    (map (\<lambda>m. minute_of (timestamp m)) (filter (\<lambda>m. RTTMeasurement.deviceJid m = d) ms))))
       (first_occurrences (map RTTMeasurement.deviceJid ms))"
  unfolding device_timestamps_def map_add_to_set_def
  using foldl_map_set_tabulate [of RTTMeasurement.deviceJid "\<lambda>s m. set_add (minute_of (timestamp m)) s" "[]" ms]
  by (simp add: foldl_set_add_map)

subsection \<open>Multi-device coordination\<close>

lemma foldl_set_add_acc:
  "distinct acc \<Longrightarrow>
     distinct (foldl (\<lambda>s x. set_add x s) acc xs)
     \<and> set (foldl (\<lambda>s x. set_add x s) acc xs) = set acc \<union> set xs"
  by (induction xs arbitrary: acc) (auto simp: set_add_def)

lemma foldl_union_sets:
  "distinct acc \<Longrightarrow>
     distinct (foldl (\<lambda>a ts. foldl (\<lambda>s x. set_add x s) a ts) acc tss)
     \<and> set (foldl (\<lambda>a ts. foldl (\<lambda>s x. set_add x s) a ts) acc tss) = set acc \<union> \<Union> (set ` set tss)"
proof (induction tss arbitrary: acc)
  case Nil
  then show ?case by simp
next
  case (Cons ts tss)
  have d: "distinct (foldl (\<lambda>s x. set_add x s) acc ts)"
    and s: "set (foldl (\<lambda>s x. set_add x s) acc ts) = set acc \<union> set ts"
    using foldl_set_add_acc [OF Cons.prems] by simp_all
  show ?case
    using Cons.IH [OF d] s by auto
qed

lemma all_minutes_set:
  "distinct (all_minutes dt) \<and> set (all_minutes dt) = \<Union> (set ` snd ` set dt)"
  unfolding all_minutes_def using foldl_union_sets [of "[]" "map snd dt"] by simp

lemma foldl_count_if:
  "foldl (\<lambda>c x. if P x then c + 1 else c) (n::nat) xs = n + length (filter P xs)"
  by (induction xs arbitrary: n) simp_all

lemma active_devices_count:
  "active_devices dt minute = length (filter (\<lambda>ts. minute \<in> set ts) (map snd dt))"
  unfolding active_devices_def foldl_count_if by simp

lemma distinct_two:
  assumes "distinct ks" and "set ks = {a, b}" and "a \<noteq> b"
  shows "ks = [a, b] \<or> ks = [b, a]"
proof -
  have "length ks = 2"
    using assms distinct_card [OF assms(1)] by simp
  then obtain x y where ks: "ks = [x, y]"
    by (cases ks; cases "tl ks"; cases "tl (tl ks)") auto
  then show ?thesis using assms by (auto simp: doubleton_eq_iff)
qed


lemma minutes_of_device:
  assumes "(\<lambda>m. timestamp m div 60000) ` {m \<in> set ms. RTTMeasurement.deviceJid m = d} = Q"
  shows "set (first_occurrences
           (map (\<lambda>m. minute_of (timestamp m)) (filter (\<lambda>m. RTTMeasurement.deviceJid m = d) ms)))
         = (\<lambda>q. q * 60000) ` Q"
proof -
  have "set (map (\<lambda>m. minute_of (timestamp m)) (filter (\<lambda>m. RTTMeasurement.deviceJid m = d) ms))
          = (\<lambda>q. q * 60000) ` ((\<lambda>m. timestamp m div 60000) ` {m \<in> set ms. RTTMeasurement.deviceJid m = d})"
    by (auto simp: minute_of_def image_iff)
  then show ?thesis
    by (simp only: set_first_occurrences assms)
qed

lemma coordination_two_devices_values:
  assumes devs: "RTTMeasurement.deviceJid ` set ms = {A, B}" and ne: "A \<noteq> B"
    and minsA: "(\<lambda>m. timestamp m div 60000) ` {m \<in> set ms. RTTMeasurement.deviceJid m = A} = {0, 1, 2}"
    and minsB: "(\<lambda>m. timestamp m div 60000) ` {m \<in> set ms. RTTMeasurement.deviceJid m = B} = {1, 2}"
  shows "simultaneousDevices (multiDeviceCoordination
           (generateBehavioralInsights tz now ms trs start end)) = 2"
    and "coordinationScore (multiDeviceCoordination
           (generateBehavioralInsights tz now ms trs start end)) = 200 / 3"
proof -
  define mins where "mins d = first_occurrences
      (map (\<lambda>m. minute_of (timestamp m)) (filter (\<lambda>m. RTTMeasurement.deviceJid m = d) ms))" for d
  define ks where "ks = first_occurrences (map RTTMeasurement.deviceJid ms)"
  define dt where "dt = device_timestamps ms"
  have nonempty: "length ms \<noteq> 0" using devs by auto
  have ks: "ks = [A, B] \<or> ks = [B, A]"
    using distinct_two [of ks A B] devs ne
    by (simp add: ks_def distinct_first_occurrences set_first_occurrences)
  have sA: "set (mins A) = {0, 60000, 120000}"
    using minutes_of_device [OF minsA] by (simp add: mins_def)
  have sB: "set (mins B) = {60000, 120000}"
    using minutes_of_device [OF minsB] by (simp add: mins_def)
  have dt: "dt = map (\<lambda>d. (d, mins d)) ks"
    by (simp add: dt_def ks_def mins_def device_timestamps_tabulate)
  have am_set: "set (all_minutes dt) = {0, 60000, 120000}"
    using ks sA sB all_minutes_set [of dt] by (auto simp: dt)
  have "card (set (all_minutes dt)) = 3"
    unfolding am_set by simp
  then have am_len: "length (all_minutes dt) = 3"
    using all_minutes_set [of dt] distinct_card [of "all_minutes dt"] by simp
  have active: "active_devices dt minute =
      (if minute \<in> set (mins A) then 1 else 0) + (if minute \<in> set (mins B) then 1 else 0)" for minute
    using ks by (auto simp: active_devices_count dt)
  have "{minute \<in> set (all_minutes dt). 1 < active_devices dt minute} = {60000, 120000}"
    unfolding am_set active sA sB by auto
  then have "card {minute \<in> set (all_minutes dt). 1 < active_devices dt minute} = 2"
    by simp
  moreover have "length (filter (\<lambda>minute. 1 < active_devices dt minute) (all_minutes dt))
      = card {minute \<in> set (all_minutes dt). 1 < active_devices dt minute}"
    using all_minutes_set [of dt] distinct_length_filter [of "all_minutes dt"]
    by (simp add: Int_def conj_commute)
  ultimately have cnt: "foldl (\<lambda>c minute. if active_devices dt minute > 1 then c + 1 else c)
      (0::nat) (all_minutes dt) = 2"
    unfolding foldl_count_if by simp
  have "length (group_by RTTMeasurement.deviceJid ms) = length ks"
    by (simp add: group_by_tabulate ks_def)
  then have len: "length (group_by RTTMeasurement.deviceJid ms) = 2"
    using ks by auto
  show "simultaneousDevices (multiDeviceCoordination
           (generateBehavioralInsights tz now ms trs start end)) = 2"
    using nonempty len by (simp add: generateBehavioralInsights_def Let_def)
  have "coordinationScore (multiDeviceCoordination
           (generateBehavioralInsights tz now ms trs start end))
      = (if length (all_minutes dt) > 0
         then (real (foldl (\<lambda>c minute. if active_devices dt minute > 1 then c + 1 else c)
                 (0::nat) (all_minutes dt)) / real (length (all_minutes dt))) * 100
         else 0)"
    using nonempty by (simp add: generateBehavioralInsights_def Let_def dt_def)
  then show "coordinationScore (multiDeviceCoordination
           (generateBehavioralInsights tz now ms trs start end)) = 200 / 3"
    unfolding cnt am_len by simp
qed

lemma image_Collect_set_filter: "f ` {x \<in> set xs. P x} = set (map f (filter P xs))"
  by auto

lemma two_devices_hyps:
  "RTTMeasurement.deviceJid ` set two_devices = {''A'', ''B''}"
  "(\<lambda>m. timestamp m div 60000) ` {m \<in> set two_devices. RTTMeasurement.deviceJid m = ''A''} = {0, 1, 2}"
  "(\<lambda>m. timestamp m div 60000) ` {m \<in> set two_devices. RTTMeasurement.deviceJid m = ''B''} = {1, 2}"
  unfolding image_Collect_set_filter
  by (auto simp: two_devices_def measurement_def)

text \<open>
  Claim C6, as stated: with exactly two devices, A measured in the minutes 0, 1, 2 and B in
  the minutes 1, 2, the coordination score is 66.7. The code does not round: the score is
  the quotient 2/3 times 100.
\<close>

theorem coordination_example_counterexample:
  "\<not> (simultaneousDevices (multiDeviceCoordination
          (generateBehavioralInsights utc 0 two_devices [] 0 None)) = 2
      \<and> coordinationScore (multiDeviceCoordination
          (generateBehavioralInsights utc 0 two_devices [] 0 None)) = 66.7)"
  using coordination_two_devices_values(2) [OF two_devices_hyps(1) _ two_devices_hyps(2,3), of utc 0 "[]" 0 None]
  by simp

text \<open>
  Claim C6, amended: for an input with exactly two devices, A with measurements in the
  minutes 0, 1, 2 and B in the minutes 1, 2, \<open>generateBehavioralInsights\<close> returns
  \<open>simultaneousDevices = 2\<close> and the unrounded \<open>coordinationScore = (2/3) * 100\<close>, the
  percentage of the active minutes in which more than one device was active; rounded to
  one decimal place that is 66.7.
\<close>

theorem coordination_example:
  "RTTMeasurement.deviceJid ` set ms = {A, B} \<and> A \<noteq> B
   \<and> (\<lambda>m. timestamp m div 60000) ` {m \<in> set ms. RTTMeasurement.deviceJid m = A} = {0, 1, 2}
   \<and> (\<lambda>m. timestamp m div 60000) ` {m \<in> set ms. RTTMeasurement.deviceJid m = B} = {1, 2}
   \<longrightarrow>
     simultaneousDevices (multiDeviceCoordination
        (generateBehavioralInsights tz now ms trs start end)) = 2
     \<and> coordinationScore (multiDeviceCoordination
        (generateBehavioralInsights tz now ms trs start end)) = 2 / 3 * 100
     \<and> Math_round (coordinationScore (multiDeviceCoordination
        (generateBehavioralInsights tz now ms trs start end)) * 10) / 10 = 66.7"
proof
  assume a: "RTTMeasurement.deviceJid ` set ms = {A, B} \<and> A \<noteq> B
   \<and> (\<lambda>m. timestamp m div 60000) ` {m \<in> set ms. RTTMeasurement.deviceJid m = A} = {0, 1, 2}
   \<and> (\<lambda>m. timestamp m div 60000) ` {m \<in> set ms. RTTMeasurement.deviceJid m = B} = {1, 2}"
  note h1 = a [THEN conjunct1]
    and h2 = a [THEN conjunct2, THEN conjunct1]
    and h3 = a [THEN conjunct2, THEN conjunct2, THEN conjunct1]
    and h4 = a [THEN conjunct2, THEN conjunct2, THEN conjunct2]
  have n: "simultaneousDevices (multiDeviceCoordination
        (generateBehavioralInsights tz now ms trs start end)) = 2"
    by (rule coordination_two_devices_values(1) [OF h1 h2 h3 h4])
  have s: "coordinationScore (multiDeviceCoordination
        (generateBehavioralInsights tz now ms trs start end)) = 200 / 3"
    by (rule coordination_two_devices_values(2) [OF h1 h2 h3 h4])
  have "\<lfloor>(4003 :: real) / 6\<rfloor> = 667"
    by (simp add: floor_eq_iff)
  then have r: "Math_round (200 / 3 * 10) / 10 = 66.7"
    by (simp add: Math_round_def)
  show "simultaneousDevices (multiDeviceCoordination
        (generateBehavioralInsights tz now ms trs start end)) = 2
     \<and> coordinationScore (multiDeviceCoordination
        (generateBehavioralInsights tz now ms trs start end)) = 2 / 3 * 100
     \<and> Math_round (coordinationScore (multiDeviceCoordination
        (generateBehavioralInsights tz now ms trs start end)) * 10) / 10 = 66.7"
    unfolding n s using r by simp
qed

theorem coordination_example_witness:
  "RTTMeasurement.deviceJid ` set two_devices = {''A'', ''B''}
   \<and> simultaneousDevices (multiDeviceCoordination
        (generateBehavioralInsights utc 0 two_devices [] 0 None)) = 2
   \<and> coordinationScore (multiDeviceCoordination
        (generateBehavioralInsights utc 0 two_devices [] 0 None)) = 2 / 3 * 100"
proof -
  have "''A'' \<noteq> ''B''" by simp
  then show ?thesis
    using coordination_example [of two_devices "''A''" "''B''" utc 0 "[]" 0 None] two_devices_hyps
    by blast
qed

subsection \<open>Dependence on the clock\<close>

lemma averageSessionLength_value:
  "averageSessionLength (generateBehavioralInsights tz now ms trs start end) =
     (if ms = [] then 0
      else case end of
             None \<Rightarrow> differenceInMinutes now start
           | Some e \<Rightarrow> if e \<noteq> 0 then differenceInMinutes e start
                       else differenceInMinutes now start)"
  by (simp add: generateBehavioralInsights_def Let_def)

lemma generateBehavioralInsights_other_fields:
  "(generateBehavioralInsights tz now1 ms trs start end)\<lparr> averageSessionLength := 0 \<rparr>
     = (generateBehavioralInsights tz now2 ms trs start end)\<lparr> averageSessionLength := 0 \<rparr>"
  by (simp add: generateBehavioralInsights_def Let_def)

lemma generateBehavioralInsights_closed_session:
  "e \<noteq> 0 \<Longrightarrow> generateBehavioralInsights tz now1 ms trs start (Some e)
     = generateBehavioralInsights tz now2 ms trs start (Some e)"
  by (simp add: generateBehavioralInsights_def Let_def)

lemma four_rtts_nonempty: "four_rtts \<noteq> []"
  by (simp add: four_rtts_def)

text \<open>
  Claim C5, as stated: two calls of an analyzer on the same input, at any two times, return
  the same output. For a session without an end time, \<open>generateBehavioralInsights\<close> reads
  the clock: a minute later the session is a minute longer.
\<close>

theorem generateBehavioralInsights_clock_counterexample:
  "generateBehavioralInsights utc 0 four_rtts [] 0 None
     \<noteq> generateBehavioralInsights utc 60000 four_rtts [] 0 None"
proof
  assume "generateBehavioralInsights utc 0 four_rtts [] 0 None
     = generateBehavioralInsights utc 60000 four_rtts [] 0 None"
  then have "averageSessionLength (generateBehavioralInsights utc 0 four_rtts [] 0 None)
     = averageSessionLength (generateBehavioralInsights utc 60000 four_rtts [] 0 None)"
    by simp
  then show False
    by (simp add: averageSessionLength_value four_rtts_nonempty differenceInMinutes_def)
qed

text \<open>
  Claim C5, amended: \<open>analyzeActivityPatterns\<close>, \<open>performStatisticalAnalysis\<close> and
  \<open>analyzeNetwork\<close> read no clock and are functions of their input (and, for the first,
  of the time zone of the process). \<open>generateBehavioralInsights\<close> returns the same output
  at any two times when the session has an end time that is not zero, or when there are no
  measurements; with an end time absent or zero, two calls agree on every field but
  \<open>averageSessionLength\<close>, which is then the number of minutes from the session start to
  the time of the call.
\<close>

theorem analyzers_deterministic:
  "(e \<noteq> 0 \<longrightarrow>
      generateBehavioralInsights tz now1 ms trs start (Some e)
        = generateBehavioralInsights tz now2 ms trs start (Some e))
   \<and> generateBehavioralInsights tz now1 [] trs start end
        = generateBehavioralInsights tz now2 [] trs start end
   \<and> (generateBehavioralInsights tz now1 ms trs start end)\<lparr> averageSessionLength := 0 \<rparr>
        = (generateBehavioralInsights tz now2 ms trs start end)\<lparr> averageSessionLength := 0 \<rparr>
   \<and> (ms \<noteq> [] \<longrightarrow>
        averageSessionLength (generateBehavioralInsights tz now1 ms trs start None)
          = differenceInMinutes now1 start
        \<and> averageSessionLength (generateBehavioralInsights tz now1 ms trs start (Some 0))
          = differenceInMinutes now1 start)"
proof (intro conjI impI)
  assume "e \<noteq> 0"
  then show "generateBehavioralInsights tz now1 ms trs start (Some e)
        = generateBehavioralInsights tz now2 ms trs start (Some e)"
    by (rule generateBehavioralInsights_closed_session)
next
  show "generateBehavioralInsights tz now1 [] trs start end
        = generateBehavioralInsights tz now2 [] trs start end"
    by (simp add: generateBehavioralInsights_def)
next
  show "(generateBehavioralInsights tz now1 ms trs start end)\<lparr> averageSessionLength := 0 \<rparr>
        = (generateBehavioralInsights tz now2 ms trs start end)\<lparr> averageSessionLength := 0 \<rparr>"
    by (rule generateBehavioralInsights_other_fields)
next
  assume "ms \<noteq> []"
  then show "averageSessionLength (generateBehavioralInsights tz now1 ms trs start None)
          = differenceInMinutes now1 start"
    by (simp add: averageSessionLength_value)
next
  assume "ms \<noteq> []"
  then show "averageSessionLength (generateBehavioralInsights tz now1 ms trs start (Some 0))
          = differenceInMinutes now1 start"
    by (simp add: averageSessionLength_value)
qed

theorem analyzers_deterministic_witness:
  "generateBehavioralInsights utc 0 four_rtts [a_transition] 0 (Some 120000)
     = generateBehavioralInsights utc 999999 four_rtts [a_transition] 0 (Some 120000)
   \<and> averageSessionLength (generateBehavioralInsights utc 180000 four_rtts [] 0 None) = 3"
proof
  have "(120000 :: int) \<noteq> 0" by simp
  then show "generateBehavioralInsights utc 0 four_rtts [a_transition] 0 (Some 120000)
     = generateBehavioralInsights utc 999999 four_rtts [a_transition] 0 (Some 120000)"
    using analyzers_deterministic [of 120000 utc 0 four_rtts "[a_transition]" 0 999999 None]
    by blast
  have "averageSessionLength (generateBehavioralInsights utc 180000 four_rtts [] 0 None)
          = differenceInMinutes 180000 0"
    using analyzers_deterministic [of 120000 utc 180000 four_rtts "[]" 0 0 None]
      four_rtts_nonempty by blast
  then show "averageSessionLength (generateBehavioralInsights utc 180000 four_rtts [] 0 None) = 3"
    by (simp add: differenceInMinutes_def)
qed

subsection \<open>Sleep and wake detection\<close>

lemma sum_indicator_distinct:
  "distinct ks \<Longrightarrow> (\<Sum>h\<leftarrow>ks. if k = h then 1 else 0) = (if k \<in> set ks then 1 else (0::nat))"
  by (induction ks) auto

lemma sum_filter_lengths:
  "(\<Sum>k\<leftarrow>first_occurrences (map key xs). length (filter (\<lambda>x. key x = k) xs)) = length xs"
proof (induction xs rule: rev_induct)
  case Nil
  then show ?case by (simp add: first_occurrences_Nil)
next
  case (snoc x xs)
  let ?ks = "first_occurrences (map key xs)"
  have split: "(\<Sum>k\<leftarrow>ks. length (filter (\<lambda>y. key y = k) (xs @ [x])))
      = (\<Sum>k\<leftarrow>ks. length (filter (\<lambda>y. key y = k) xs)) + (\<Sum>k\<leftarrow>ks. if key x = k then 1 else 0)" for ks
    by (induction ks) auto
  have ind: "(\<Sum>k\<leftarrow>?ks. if key x = k then 1 else 0) = (if key x \<in> set (map key xs) then 1 else (0::nat))"
    using sum_indicator_distinct [OF distinct_first_occurrences, of "key x" "map key xs"]
    by (simp add: set_first_occurrences)
  show ?case
  proof (cases "key x \<in> set (map key xs)")
    case True
    then have ks': "first_occurrences (map key (xs @ [x])) = ?ks"
      by (simp add: first_occurrences_snoc)
    show ?thesis
      unfolding ks' split snoc.IH ind using True by simp
  next
    case False
    then have ks': "first_occurrences (map key (xs @ [x])) = ?ks @ [key x]"
      by (simp add: first_occurrences_snoc)
    have fe: "filter (\<lambda>y. key y = key x) xs = []"
      using False by (rule filter_key_absent)
    have "(\<Sum>k\<leftarrow>?ks @ [key x]. length (filter (\<lambda>y. key y = k) xs)) = length xs"
      using snoc.IH fe by simp
    moreover have "(\<Sum>k\<leftarrow>?ks @ [key x]. if key x = k then 1 else 0) = (1::nat)"
      using ind False by simp
    ultimately show ?thesis
      unfolding ks' split by simp
  qed
qed

lemma count_by_hour_lookup:
  "map_get_or_zero (count_by_hour tz ms) h = hour_count tz ms h"
proof (cases "h \<in> set (map (\<lambda>m. getHours tz (timestamp m)) ms)")
  case True
  then show ?thesis
    by (simp add: map_get_or_zero_def count_by_hour_tabulate map_of_tabulate
        set_first_occurrences hour_count_def)
next
  case False
  then have "filter (\<lambda>m. getHours tz (timestamp m) = h) ms = []" by (rule filter_key_absent)
  then show ?thesis
    using False
    by (simp add: map_get_or_zero_def count_by_hour_tabulate map_of_tabulate
        set_first_occurrences hour_count_def)
qed

lemma count_by_hour_length:
  "length (count_by_hour tz ms) = card (observed_hours tz ms)"
  by (simp add: count_by_hour_tabulate length_first_occurrences observed_hours_def)

lemma count_by_hour_mean:
  "mean_activity (count_by_hour tz ms) = real (length ms) / real (card (observed_hours tz ms))"
proof -
  have "map (\<lambda>e. real (snd e)) (count_by_hour tz ms)
      = map real (map (\<lambda>h. length (filter (\<lambda>m. getHours tz (timestamp m) = h) ms))
          (first_occurrences (map (\<lambda>m. getHours tz (timestamp m)) ms)))"
    by (simp add: count_by_hour_tabulate o_def)
  then have "sum_list (map (\<lambda>e. real (snd e)) (count_by_hour tz ms))
      = real (\<Sum>h\<leftarrow>first_occurrences (map (\<lambda>m. getHours tz (timestamp m)) ms).
                length (filter (\<lambda>m. getHours tz (timestamp m) = h) ms))"
    by (simp only: sum_list_of_nat [symmetric] map_map o_def) 
  then show ?thesis
    by (simp only: mean_activity_def reduce_add_sum_list sum_filter_lengths count_by_hour_length)
qed

lemma low_activity_hours_properties:
  fixes tz ms
  defines "low \<equiv> low_activity_hours (count_by_hour tz ms)"
  shows "set low \<subseteq> observed_hours tz ms"
    and "distinct low"
    and "length low = min 6 (card (observed_hours tz ms))"
    and "\<forall>h\<in>set low. \<forall>h'\<in>observed_hours tz ms - set low. hour_count tz ms h \<le> hour_count tz ms h'"
proof -
  define obs where "obs = first_occurrences (map (\<lambda>m. getHours tz (timestamp m)) ms)"
  define H where "H = map (\<lambda>h. (h, hour_count tz ms h)) obs"
  define S where "S = sort_key snd H"
  have H: "count_by_hour tz ms = H"
    by (simp add: H_def obs_def count_by_hour_tabulate hour_count_def)
  have low: "low = map fst (take 6 S)"
    by (simp add: low_def low_activity_hours_def H S_def)
  have set_obs: "set obs = observed_hours tz ms"
    by (simp add: obs_def set_first_occurrences observed_hours_def)
  have dist_obs: "distinct obs"
    by (simp add: obs_def distinct_first_occurrences)
  have set_S: "set S = (\<lambda>h. (h, hour_count tz ms h)) ` set obs"
    by (simp add: S_def H_def)
  have entry: "e \<in> set S \<Longrightarrow> snd e = hour_count tz ms (fst e) \<and> fst e \<in> set obs" for e
    using set_S by auto
  have "distinct H"
    using dist_obs by (simp add: H_def distinct_map inj_on_def)
  then have dist_S: "distinct S" by (simp add: S_def)
  have "inj_on fst (set S)"
    using entry by (auto simp: inj_on_def prod_eq_iff)
  then have dist_keys: "distinct (map fst S)"
    using dist_S by (simp add: distinct_map)
  have len_S: "length S = card (observed_hours tz ms)"
    using dist_obs set_obs distinct_card [of obs] by (simp add: S_def H_def)
  show "set low \<subseteq> observed_hours tz ms"
  proof
    fix h assume "h \<in> set low"
    then obtain e where "e \<in> set (take 6 S)" "h = fst e" by (auto simp: low)
    then have "e \<in> set S" by (meson in_set_takeD)
    then show "h \<in> observed_hours tz ms"
      using entry set_obs \<open>h = fst e\<close> by auto
  qed
  show "distinct low"
    using dist_keys by (simp add: low take_map [symmetric])
  show "length low = min 6 (card (observed_hours tz ms))"
    by (simp add: low len_S min.commute)
  have sorted: "sorted (map snd (take 6 S) @ map snd (drop 6 S))"
    using sorted_sort_key [of snd H]
    by (simp only: S_def [symmetric] map_append [symmetric] append_take_drop_id)
  show "\<forall>h\<in>set low. \<forall>h'\<in>observed_hours tz ms - set low. hour_count tz ms h \<le> hour_count tz ms h'"
  proof (intro ballI)
    fix h h' assume h: "h \<in> set low" and h': "h' \<in> observed_hours tz ms - set low"
    from h obtain e where e: "e \<in> set (take 6 S)" "h = fst e" by (auto simp: low)
    then have eS: "e \<in> set S" by (meson in_set_takeD)
    have "(h', hour_count tz ms h') \<in> set S"
      using h' set_obs set_S by auto
    then have "(h', hour_count tz ms h') \<in> set (take 6 S) \<union> set (drop 6 S)"
      by (simp only: set_append [symmetric] append_take_drop_id)
    moreover have "(h', hour_count tz ms h') \<notin> set (take 6 S)"
      using h' by (force simp: low)
    ultimately have d: "(h', hour_count tz ms h') \<in> set (drop 6 S)" by simp
    have "snd e \<in> set (map snd (take 6 S))" using e(1) by simp
    moreover have "hour_count tz ms h' \<in> set (map snd (drop 6 S))" using d by force
    ultimately have "snd e \<le> hour_count tz ms h'"
      using sorted unfolding sorted_append by blast
    then show "hour_count tz ms h \<le> hour_count tz ms h'"
      using entry [OF eS] e(2) by simp
  qed
qed

lemma noon_100_code_result:
  "detectSleepWakePatterns utc noon_100
     = \<lparr> typicalWakeTime = None, typicalSleepTime = None, sleepPatternDetected = False \<rparr>"
  by code_simp

lemma noon_100_low: "low_activity_hours (count_by_hour utc noon_100) = [12]"
  by code_simp

lemma noon_100_day_wake: "day_wake_time utc noon_100 = Some 12"
  by code_simp

text \<open>
  Claim C7, as stated: for at least 100 measurements the low-activity set is the 6
  lowest-count hours, and the wake time the first hour outside it whose count exceeds 1.5
  times the mean hourly count. The code counts only the hours that have a measurement.
  With a hundred measurements at noon, its low-activity set is the single hour 12, the
  busiest one, its mean is 100, and it reports no wake time; over the 24 hours of the day
  the six lowest-count hours are empty ones, the mean is 100/24, and hour 12 is the wake
  time.
\<close>

theorem sleep_wake_counterexample:
  "length noon_100 \<ge> 100
   \<and> typicalWakeTime (detectSleepWakePatterns utc noon_100) \<noteq> day_wake_time utc noon_100
   \<and> length (low_activity_hours (count_by_hour utc noon_100)) \<noteq> 6"
  by (simp add: noon_100_code_result noon_100_low noon_100_day_wake) (simp add: noon_100_def)

text \<open>
  Claim C7, amended: for every input of at least 100 measurements, the detection counts
  the measurements of each hour of the day that has at least one. The low-activity set
  consists of 6 of these hours, or of all of them when fewer than 6 hours have
  measurements, and no hour in it has a higher count than an hour with measurements
  outside it. The mean hourly count is the number of measurements divided by the number
  of hours that have measurements. \<open>wakeTime\<close> is the first hour, in the order 0 to 23,
  that is not in the set and whose count exceeds 1.5 times that mean; \<open>sleepTime\<close> is the
  first hour, in the order 0 to 23, that is in the set and whose count is below 0.5 times
  that mean; \<open>sleepPatternDetected\<close> holds iff at least one of the two is defined. For
  fewer than 100 measurements the result is \<open>sleepPatternDetected: false\<close>, with neither
  time defined.
\<close>

theorem sleep_wake_detection:
  "(length ms \<ge> 100 \<longrightarrow>
      (let low = low_activity_hours (count_by_hour tz ms);
           mean = real (length ms) / real (card (observed_hours tz ms));
           r = detectSleepWakePatterns tz ms
       in set low \<subseteq> observed_hours tz ms
          \<and> distinct low
          \<and> length low = min 6 (card (observed_hours tz ms))
          \<and> (\<forall>h\<in>set low. \<forall>h'\<in>observed_hours tz ms - set low.
                hour_count tz ms h \<le> hour_count tz ms h')
          \<and> typicalWakeTime r =
                find (\<lambda>h. h \<notin> set low \<and> real (hour_count tz ms h) > mean * 1.5) [0..<24]
          \<and> typicalSleepTime r =
                find (\<lambda>h. h \<in> set low \<and> real (hour_count tz ms h) < mean * 0.5) [0..<24]
          \<and> sleepPatternDetected r = (typicalWakeTime r \<noteq> None \<or> typicalSleepTime r \<noteq> None)))
   \<and> (length ms < 100 \<longrightarrow>
        detectSleepWakePatterns tz ms =
          \<lparr> typicalWakeTime = None, typicalSleepTime = None, sleepPatternDetected = False \<rparr>)"
proof (intro conjI impI)
  assume "length ms < 100"
  then show "detectSleepWakePatterns tz ms =
          \<lparr> typicalWakeTime = None, typicalSleepTime = None, sleepPatternDetected = False \<rparr>"
    by (simp add: detectSleepWakePatterns_def)
next
  assume len: "length ms \<ge> 100"
  define low where "low = low_activity_hours (count_by_hour tz ms)"
  define mean where "mean = real (length ms) / real (card (observed_hours tz ms))"
  define r where "r = detectSleepWakePatterns tz ms"
  have r: "r = \<lparr> typicalWakeTime = findWakeTime (count_by_hour tz ms) low,
                 typicalSleepTime = findSleepTime (count_by_hour tz ms) low,
                 sleepPatternDetected = (findWakeTime (count_by_hour tz ms) low \<noteq> None
                    \<or> findSleepTime (count_by_hour tz ms) low \<noteq> None) \<rparr>"
    using len by (simp add: r_def detectSleepWakePatterns_def Let_def low_def)
  have wake: "typicalWakeTime r =
      find (\<lambda>h. h \<notin> set low \<and> real (hour_count tz ms h) > mean * 1.5) [0..<24]"
    unfolding r findWakeTime_def Let_def count_by_hour_lookup count_by_hour_mean mean_def
    by simp
  have sleep: "typicalSleepTime r =
      find (\<lambda>h. h \<in> set low \<and> real (hour_count tz ms h) < mean * 0.5) [0..<24]"
    unfolding r findSleepTime_def Let_def count_by_hour_lookup count_by_hour_mean mean_def
    by simp
  have detected: "sleepPatternDetected r = (typicalWakeTime r \<noteq> None \<or> typicalSleepTime r \<noteq> None)"
    unfolding r by simp
  have props: "set low \<subseteq> observed_hours tz ms" "distinct low"
    "length low = min 6 (card (observed_hours tz ms))"
    "\<forall>h\<in>set low. \<forall>h'\<in>observed_hours tz ms - set low. hour_count tz ms h \<le> hour_count tz ms h'"
    unfolding low_def by (rule low_activity_hours_properties)+
  show "let low = low_activity_hours (count_by_hour tz ms);
           mean = real (length ms) / real (card (observed_hours tz ms));
           r = detectSleepWakePatterns tz ms
       in set low \<subseteq> observed_hours tz ms
          \<and> distinct low
          \<and> length low = min 6 (card (observed_hours tz ms))
          \<and> (\<forall>h\<in>set low. \<forall>h'\<in>observed_hours tz ms - set low.
                hour_count tz ms h \<le> hour_count tz ms h')
          \<and> typicalWakeTime r =
                find (\<lambda>h. h \<notin> set low \<and> real (hour_count tz ms h) > mean * 1.5) [0..<24]
          \<and> typicalSleepTime r =
                find (\<lambda>h. h \<in> set low \<and> real (hour_count tz ms h) < mean * 0.5) [0..<24]
          \<and> sleepPatternDetected r = (typicalWakeTime r \<noteq> None \<or> typicalSleepTime r \<noteq> None)"
    unfolding Let_def low_def [symmetric] mean_def [symmetric] r_def [symmetric]
    using props wake sleep detected by (intro conjI)
qed

lemma busy_noon_length: "length busy_noon = 112"
  by (simp add: busy_noon_def)

lemma busy_noon_low: "low_activity_hours (count_by_hour utc busy_noon) = [0, 1, 2, 3, 4, 5]"
  by code_simp

lemma busy_noon_observed: "card (observed_hours utc busy_noon) = 7"
  by code_simp

theorem sleep_wake_detection_witness:
  "length busy_noon \<ge> 100
   \<and> typicalWakeTime (detectSleepWakePatterns utc busy_noon) = Some 12
   \<and> typicalSleepTime (detectSleepWakePatterns utc busy_noon) = Some 0
   \<and> sleepPatternDetected (detectSleepWakePatterns utc busy_noon)
   \<and> \<not> sleepPatternDetected (detectSleepWakePatterns utc four_rtts)"
proof -
  have len: "length busy_noon \<ge> 100" by (simp add: busy_noon_length)
  have short: "length four_rtts < 100" by (simp add: four_rtts_def)
  have w: "find (\<lambda>h. h \<notin> set [0, 1, 2, 3, 4, 5::nat]
              \<and> real (hour_count utc busy_noon h) > real 112 / real 7 * 1.5) [0..<24] = Some 12"
    by code_simp
  have s: "find (\<lambda>h. h \<in> set [0, 1, 2, 3, 4, 5::nat]
              \<and> real (hour_count utc busy_noon h) < real 112 / real 7 * 0.5) [0..<24] = Some 0"
    by code_simp
  from sleep_wake_detection [of busy_noon utc] len
  have "typicalWakeTime (detectSleepWakePatterns utc busy_noon) = Some 12"
    and "typicalSleepTime (detectSleepWakePatterns utc busy_noon) = Some 0"
    and "sleepPatternDetected (detectSleepWakePatterns utc busy_noon)"
    unfolding Let_def busy_noon_low busy_noon_observed busy_noon_length w s by simp_all
  moreover from sleep_wake_detection [of four_rtts utc] short
  have "\<not> sleepPatternDetected (detectSleepWakePatterns utc four_rtts)"
    by simp
  ultimately show ?thesis using len by simp
qed

end
